theory Spec2Isabelle
  imports
    Complex_Main
    "HOL-Library.Multiset"
    "HOL-Library.Char_ord"
    "HOL-Library.List_Lexorder"
    "HOL-Library.Product_Lexorder"
begin

section \<open>Bus boarding sequencer: the model of \<open>backend/main.py\<close>\<close>

text \<open>
  The theory embeds class \<open>OptimizedBoardingProcessor\<close> of \<open>backend/main.py\<close>:
  the seat distance resolver with its cache, the heap based sequencer and the efficiency
  analyser.

  Conventions of the embedding.
  \<^item> A Python \<open>str\<close> is a \<open>string\<close>; a character stands for the code point of the same
    number, so the strings of the model are the Python strings over the code points below 256.
    On these code points the class \<open>\d\<close> of module \<open>re\<close> is exactly \<open>0\<close> to \<open>9\<close>.
    Strings are compared as Python compares them, lexicographically by code point.
  \<^item> A Python \<open>float\<close> is a rational number and float arithmetic is exact arithmetic:
    the rounding of binary64 and the limits of CPython on converting very long digit strings
    are outside the model.
  \<^item> An exception is a value of type \<open>error\<close>. A method of the processor takes the state of
    the object and returns its outcome together with the state it leaves behind, also when it
    raises.
  \<^item> The wall clock (\<open>processingTime\<close>) and the log line printed by the sequencer are not
    modelled.
\<close>

subsection \<open>Errors and the state of the processor\<close>

datatype error =
    InvalidSeatFormat string  \<comment> \<open>\<open>ValueError("Invalid seat format: ...")\<close>\<close>
  | EmptySequence             \<comment> \<open>\<open>ValueError\<close> of \<open>max()\<close> and \<open>min()\<close> on an empty list\<close>
  | TypeError                 \<comment> \<open>\<open>'<' not supported between instances of 'dict' and 'dict'\<close>\<close>
  | IndexError                \<comment> \<open>list index out of range, pop from empty list\<close>

record processor =
  seat_cache :: "string \<rightharpoonup> rat"
  cache_hits :: nat
  cache_misses :: nat

definition init :: processor where
  "init = \<lparr>seat_cache = Map.empty, cache_hits = 0, cache_misses = 0\<rparr>"

subsection \<open>Distance resolver\<close>

definition is_digit :: "char \<Rightarrow> bool" where
  "is_digit c = (c \<in> set ''0123456789'')"

definition digit_val :: "char \<Rightarrow> nat" where
  "digit_val c = of_char c - of_char CHR ''0''"

text \<open>\<open>int(s)\<close> on a string of decimal digits.\<close>

definition int_of_digits :: "string \<Rightarrow> nat" where
  "int_of_digits ds = foldl (\<lambda>n c. 10 * n + digit_val c) 0 ds"

text \<open>
  \<open>re.match(r'^([A-D])(\d+)$', seat_label)\<close>: the groups of the match, if there is one.
  Without the flag \<open>MULTILINE\<close>, \<open>$\<close> matches at the end of the string and also just before
  a newline that is the last character of the string.
\<close>

definition seat_match :: "string \<Rightarrow> (char \<times> string) option" where
  "seat_match seat_label =
     (case seat_label of
        [] \<Rightarrow> None
      | c # rest \<Rightarrow>
          if c \<in> set ''ABCD'' then
            (let ds = takeWhile is_digit rest; tl = dropWhile is_digit rest
             in if ds \<noteq> [] \<and> (tl = [] \<or> tl = [CHR 0x0A]) then Some (c, ds) else None)
          else None)"

text \<open>\<open>self.column_weights.get(column, 0)\<close>\<close>

definition column_weights :: "char \<rightharpoonup> rat" where
  "column_weights = [CHR ''A'' \<mapsto> 3 / 10, CHR ''B'' \<mapsto> 2 / 10, CHR ''C'' \<mapsto> 1 / 10, CHR ''D'' \<mapsto> 0]"

definition column_weight :: "char \<Rightarrow> rat" where
  "column_weight column = (case column_weights column of Some w \<Rightarrow> w | None \<Rightarrow> 0)"

definition calculate_seat_distance :: "string \<Rightarrow> error + rat" where
  "calculate_seat_distance seat_label =
     (case seat_match seat_label of
        None \<Rightarrow> Inl (InvalidSeatFormat seat_label)
      | Some (column, digits) \<Rightarrow>
          (let row = int_of_digits digits;
               distance = of_nat row
           in Inr (distance + column_weight column)))"

definition get_seat_distance :: "processor \<Rightarrow> string \<Rightarrow> (error + rat) \<times> processor" where
  "get_seat_distance self seat_label =
     (case seat_cache self seat_label of
        Some d \<Rightarrow> (Inr d, self\<lparr>cache_hits := cache_hits self + 1\<rparr>)
      | None \<Rightarrow>
          (let self1 = self\<lparr>cache_misses := cache_misses self + 1\<rparr>
           in case calculate_seat_distance seat_label of
                Inl e \<Rightarrow> (Inl e, self1)
              | Inr distance \<Rightarrow>
                  (Inr distance, self1\<lparr>seat_cache := (seat_cache self1)(seat_label \<mapsto> distance)\<rparr>)))"

definition clear_cache :: "processor \<Rightarrow> processor" where
  "clear_cache self = self\<lparr>seat_cache := Map.empty, cache_hits := 0, cache_misses := 0\<rparr>"

subsection \<open>Bookings, heap items and sequenced entries\<close>

text \<open>
  The dictionaries of the source have fixed keys and are records. \<open>booking_info\<close> and the
  entries of the boarding sequence share the keys \<open>bookingId\<close>, \<open>seats\<close>, \<open>maxDistance\<close> and
  \<open>minDistance\<close>, so both extend a common record.
\<close>

record booking =
  bookingId :: string
  seats :: "string list"

record banded = booking +
  maxDistance :: rat
  minDistance :: rat


record entry = banded +
  sequence :: nat



subsection \<open>Module \<open>heapq\<close>\<close>









subsection \<open>Sequencer\<close>

















subsection \<open>Efficiency analyser\<close>

record efficiency =
  averageDistance :: rat
  blockingPotential :: rat
  optimalityScore :: rat

text \<open>The two nested \<open>for\<close> loops over \<open>range(len(sequence) - 1)\<close> and \<open>range(i + 1, len(sequence))\<close>.\<close>

definition blocking_loop :: "entry list \<Rightarrow> rat" where
  "blocking_loop seq =
     fold (\<lambda>i blocking_potential.
             fold (\<lambda>j blocking_potential.
                     if maxDistance (seq ! i) < maxDistance (seq ! j)
                     then blocking_potential + (maxDistance (seq ! j) - maxDistance (seq ! i))
                     else blocking_potential)
                  [i + 1 ..< length seq] blocking_potential)
          [0 ..< length seq - 1] 0"

text \<open>
  \<open>sorted(sequence, key=lambda x: -x['maxDistance'])\<close>: the sort of Python is stable, as is
  \<open>sort_key\<close>.
\<close>

definition ideal_order :: "entry list \<Rightarrow> entry list" where
  "ideal_order seq = sort_key (\<lambda>x. - maxDistance x) seq"

definition correct_positions :: "entry list \<Rightarrow> nat" where
  "correct_positions seq =
     length (filter (\<lambda>i. bookingId (seq ! i) = bookingId (ideal_order seq ! i))
               [0 ..< length seq])"

definition analyze_boarding_efficiency :: "entry list \<Rightarrow> efficiency" where
  "analyze_boarding_efficiency seq =
     (if seq = [] then
        \<lparr>averageDistance = 0, blockingPotential = 0, optimalityScore = 0\<rparr>
      else
        (let distances = map maxDistance seq;
             average_distance = sum_list distances / of_nat (length distances);
             blocking_potential = blocking_loop seq;
             optimality_score = (of_nat (correct_positions seq) / of_nat (length seq)) * 100
         in \<lparr>averageDistance = average_distance, blockingPotential = blocking_potential,
             optimalityScore = optimality_score\<rparr>))"

subsection \<open>Notions of the specification\<close>

text \<open>The pattern \<open>^[A-D][0-9]+$\<close> that the specification gives for a seat label.\<close>

definition spec_seat_pattern :: "string \<Rightarrow> bool" where
  "spec_seat_pattern l =
     (case l of [] \<Rightarrow> False | c # ds \<Rightarrow> c \<in> set ''ABCD'' \<and> ds \<noteq> [] \<and> list_all is_digit ds)"




text \<open>
  The invariant of the cache: every stored distance is the one the resolver computes for its
  label. It holds initially and after every method of the processor.
\<close>

definition cache_ok :: "processor \<Rightarrow> bool" where
  "cache_ok self = (\<forall>l d. seat_cache self l = Some d \<longrightarrow> calculate_seat_distance l = Inr d)"

text \<open>\<open>resolve(label)\<close> of the specification: the value that \<open>get_seat_distance\<close> returns or raises.\<close>

definition resolve :: "processor \<Rightarrow> string \<Rightarrow> error + rat" where
  "resolve self label = fst (get_seat_distance self label)"


definition warm :: processor where
  "warm = \<lparr>seat_cache = [''A10'' \<mapsto> 103 / 10], cache_hits = 0, cache_misses = 1\<rparr>"

text \<open>The pairs of positions that the analyser counts as blocking, and the sequences that are descending by \<open>maxDistance\<close>.\<close>

definition inversions :: "entry list \<Rightarrow> (nat \<times> nat) set" where
  "inversions seq =
     {(i, j). i < j \<and> j < length seq \<and> maxDistance (seq ! i) < maxDistance (seq ! j)}"

definition descending :: "entry list \<Rightarrow> bool" where
  "descending seq = sorted_wrt (\<lambda>a b. maxDistance a \<ge> maxDistance b) seq"

text \<open>The sequence of \<open>test_analyze_boarding_efficiency\<close>.\<close>

definition two_entries :: "entry list" where
  "two_entries =
     [\<lparr>bookingId = ''101'', seats = [''A20''], maxDistance = 203 / 10, minDistance = 203 / 10, sequence = 1\<rparr>,
      \<lparr>bookingId = ''102'', seats = [''A10''], maxDistance = 103 / 10, minDistance = 103 / 10, sequence = 2\<rparr>]"

section \<open>The distance resolver and its cache\<close>

lemma newline_not_digit: "\<not> is_digit (CHR 0x0A)"
  by (simp add: is_digit_def)

lemma seat_match_pattern:
  assumes "c \<in> set ''ABCD''" "ds \<noteq> []" "list_all is_digit ds"
  shows "seat_match (c # ds) = Some (c, ds)"
proof -
  from assms(3) have tw: "takeWhile is_digit ds = ds" "dropWhile is_digit ds = []"
    by (simp_all add: list_all_iff)
  from assms show ?thesis
    by (simp add: seat_match_def Let_def tw list_all_iff)
qed

lemma seat_match_newline:
  assumes "c \<in> set ''ABCD''" "ds \<noteq> []" "list_all is_digit ds"
  shows "seat_match (c # ds @ [CHR 0x0A]) = Some (c, ds)"
proof -
  from assms(3) have tw: "takeWhile is_digit (ds @ [CHR 0x0A]) = ds"
    "dropWhile is_digit (ds @ [CHR 0x0A]) = [CHR 0x0A]"
    by (simp_all add: list_all_iff takeWhile_append2 dropWhile_append2 newline_not_digit)
  from assms show ?thesis
    by (simp add: seat_match_def Let_def tw list_all_iff)
qed

lemma seat_match_SomeD:
  assumes "seat_match l = Some (c, ds)"
  shows "c \<in> set ''ABCD'' \<and> ds \<noteq> [] \<and> list_all is_digit ds \<and> (l = c # ds \<or> l = c # ds @ [CHR 0x0A])"
proof (cases l)
  case Nil
  with assms show ?thesis by (simp add: seat_match_def)
next
  case (Cons a rest)
  let ?t = "takeWhile is_digit rest" and ?d = "dropWhile is_digit rest"
  from assms Cons have a: "a \<in> set ''ABCD''"
    by (auto simp: seat_match_def Let_def split: if_splits)
  from assms Cons a have 1: "?t \<noteq> []" "?d = [] \<or> ?d = [CHR 0x0A]" "c = a" "ds = ?t"
    by (auto simp: seat_match_def Let_def split: if_splits)
  have "list_all is_digit ?t"
    by (simp add: list_all_iff) (meson set_takeWhileD)
  moreover have "rest = ?t @ ?d" by simp
  ultimately show ?thesis using 1 a Cons by (metis append_Nil2)
qed

lemma seat_match_iff:
  "seat_match l = Some (c, ds) \<longleftrightarrow>
     c \<in> set ''ABCD'' \<and> ds \<noteq> [] \<and> list_all is_digit ds \<and> (l = c # ds \<or> l = c # ds @ [CHR 0x0A])"
  using seat_match_SomeD seat_match_pattern seat_match_newline by blast







lemma calculate_fails_iff:
  "(\<exists>e. calculate_seat_distance l = Inl e) \<longleftrightarrow> seat_match l = None"
  by (auto simp: calculate_seat_distance_def split: option.splits)

lemma calculate_error: "calculate_seat_distance l = Inl e \<Longrightarrow> e = InvalidSeatFormat l"
  by (auto simp: calculate_seat_distance_def split: option.splits)

lemma get_seat_distance_value: "cache_ok self \<Longrightarrow> fst (get_seat_distance self l) = calculate_seat_distance l"
  by (auto simp: get_seat_distance_def cache_ok_def Let_def split: option.splits sum.splits)

lemma get_seat_distance_cache_ok: "cache_ok self \<Longrightarrow> cache_ok (snd (get_seat_distance self l))"
  by (auto simp: get_seat_distance_def cache_ok_def Let_def split: option.splits sum.splits)


lemma cache_ok_clear: "cache_ok (clear_cache self)"
  by (simp add: cache_ok_def clear_cache_def)

lemma get_seat_distance_hit:
  "seat_cache self l = Some d \<Longrightarrow>
     get_seat_distance self l = (Inr d, self\<lparr>cache_hits := cache_hits self + 1\<rparr>)"
  by (simp add: get_seat_distance_def)

lemma get_seat_distance_cached:
  "calculate_seat_distance l = Inr d \<Longrightarrow> cache_ok self \<Longrightarrow> seat_cache (snd (get_seat_distance self l)) l = Some d"
  by (auto simp: get_seat_distance_def cache_ok_def Let_def split: option.splits sum.splits)


lemma resolve_value: "cache_ok self \<Longrightarrow> resolve self l = calculate_seat_distance l"
  by (simp add: resolve_def get_seat_distance_value)





text \<open>
  Claim C4: the resolver is to fail on every label that does not match \<open>^[A-D][0-9]+$\<close>, with
  no trailing character allowed. The label \<open>A1\<close> followed by a newline does not match the
  pattern, and the resolver returns 1.3 for it: \<open>$\<close> of module \<open>re\<close> also matches before a final
  newline.
\<close>

theorem trailing_newline_accepted:
  "\<not> spec_seat_pattern ''A1\<newline>'' \<and> resolve init ''A1\<newline>'' = Inr (13 / 10)"
  by (simp add: spec_seat_pattern_def is_digit_def resolve_def get_seat_distance_def init_def
      calculate_seat_distance_def seat_match_def int_of_digits_def digit_val_def
      column_weight_def column_weights_def)




lemma cache_ok_funpow:
  "cache_ok self \<Longrightarrow> cache_ok (((\<lambda>s. snd (get_seat_distance s l)) ^^ n) self)"
  by (induction n) (simp_all add: get_seat_distance_cache_ok)

lemma calculate_A10: "calculate_seat_distance ''A10'' = Inr (103 / 10)"
  by code_simp

lemma cache_ok_warm: "cache_ok warm"
  by (simp add: cache_ok_def warm_def calculate_A10)

lemma warm_reached: "snd (get_seat_distance init ''A10'') = warm"
  by (simp add: get_seat_distance_def init_def warm_def calculate_A10)

text \<open>
  Claim C6: whatever the state of the cache, and after any number of earlier resolves of the
  label, the resolver returns the value computed from the label alone; a valid label is cached
  by its first resolve, and a resolve of a cached label returns the stored value and changes
  the hit counter only; clearing the cache empties it and leaves the resolved values as they
  were.
\<close>

theorem cache_idempotence:
  assumes "cache_ok self"
  shows "resolve (((\<lambda>s. snd (get_seat_distance s l)) ^^ n) self) l = calculate_seat_distance l \<and>
         (calculate_seat_distance l = Inr d \<longrightarrow> seat_cache (snd (get_seat_distance self l)) l = Some d) \<and>
         (seat_cache self l = Some d \<longrightarrow>
            get_seat_distance self l = (Inr d, self\<lparr>cache_hits := cache_hits self + 1\<rparr>)) \<and>
         seat_cache (clear_cache self) l = None \<and>
         resolve (clear_cache self) l = resolve self l \<and>
         cache_ok (clear_cache self) \<and> cache_ok (snd (get_seat_distance self l))"
proof -
  have "seat_cache (clear_cache self) l = None"
    by (simp add: clear_cache_def)
  with assms show ?thesis
    by (simp add: resolve_value cache_ok_funpow cache_ok_clear get_seat_distance_cached
        get_seat_distance_hit get_seat_distance_cache_ok)
qed

text \<open>Witness of C6 on the processor that has resolved \<open>A10\<close> once.\<close>

theorem cache_idempotence_witness:
  "cache_ok warm \<and> calculate_seat_distance ''A10'' = Inr (103 / 10) \<and>
   seat_cache warm ''A10'' = Some (103 / 10) \<and>
   resolve (((\<lambda>s. snd (get_seat_distance s ''A10'')) ^^ 2) warm) ''A10'' = Inr (103 / 10) \<and>
   get_seat_distance warm ''A10'' = (Inr (103 / 10), warm\<lparr>cache_hits := cache_hits warm + 1\<rparr>) \<and>
   resolve (clear_cache warm) ''A10'' = Inr (103 / 10)"
proof -
  note t = cache_idempotence [OF cache_ok_warm, where l = "''A10''" and n = 2 and d = "103 / 10"]
  have r: "resolve warm ''A10'' = Inr (103 / 10)"
    by (simp add: resolve_value cache_ok_warm calculate_A10)
  have s: "seat_cache warm ''A10'' = Some (103 / 10)"
    by (simp add: warm_def)
  from t r s cache_ok_warm calculate_A10 show ?thesis
    by metis
qed

section \<open>The efficiency analyser, and bookings without seats\<close>

lemma fold_cond_add:
  "fold (\<lambda>j (acc :: rat). if P j then acc + f j else acc) xs acc =
     acc + sum_list (map (\<lambda>j. if P j then f j else 0) xs)"
  by (induction xs arbitrary: acc) (simp_all add: add.assoc)

lemma fold_add:
  "fold (\<lambda>i (acc :: rat). acc + g i) xs acc = acc + sum_list (map g xs)"
  by (induction xs arbitrary: acc) (simp_all add: add.assoc)

lemma blocking_loop_nested:
  "blocking_loop seq =
     (\<Sum>i = 0..<length seq - 1. \<Sum>j = i + 1..<length seq.
        if maxDistance (seq ! i) < maxDistance (seq ! j)
        then maxDistance (seq ! j) - maxDistance (seq ! i) else 0)"
  by (simp add: blocking_loop_def fold_cond_add fold_add interv_sum_list_conv_sum_set_nat)

lemma blocking_loop_inversions:
  "blocking_loop seq =
     (\<Sum>(i, j) \<in> inversions seq. maxDistance (seq ! j) - maxDistance (seq ! i))"
proof -
  let ?n = "length seq"
  let ?P = "\<lambda>(i, j). maxDistance (seq ! i) < maxDistance (seq ! j)"
  let ?f = "\<lambda>(i, j). maxDistance (seq ! j) - maxDistance (seq ! i)"
  let ?S = "SIGMA i:{0..<?n - 1}. {i + 1..<?n}"
  have "blocking_loop seq = (\<Sum>i = 0..<?n - 1. \<Sum>j = i + 1..<?n. if ?P (i, j) then ?f (i, j) else 0)"
    by (simp add: blocking_loop_nested cong: if_cong)
  also have "\<dots> = (\<Sum>p \<in> ?S. if ?P p then ?f p else 0)"
    by (simp add: sum.Sigma split_def cong: if_cong)
  also have "\<dots> = (\<Sum>p \<in> {p \<in> ?S. ?P p}. ?f p)"
    by (rule sum.inter_filter [symmetric]) auto
  also have "{p \<in> ?S. ?P p} = inversions seq"
    by (auto simp: inversions_def)
  finally show ?thesis .
qed

lemma descending_nth:
  "descending seq \<Longrightarrow> i < j \<Longrightarrow> j < length seq \<Longrightarrow> maxDistance (seq ! j) \<le> maxDistance (seq ! i)"
  by (simp add: descending_def sorted_wrt_iff_nth_less)

lemma descending_inversions: "descending seq \<Longrightarrow> inversions seq = {}"
  by (auto simp: inversions_def dest: descending_nth)

lemma descending_ideal_order: "descending seq \<Longrightarrow> ideal_order seq = seq"
  unfolding ideal_order_def descending_def
  by (rule sort_key_id_if_sorted) (simp add: sorted_wrt_map)

lemma descending_correct_positions: "descending seq \<Longrightarrow> correct_positions seq = length seq"
  by (simp add: correct_positions_def descending_ideal_order)

lemma analyze_descending:
  "descending seq \<Longrightarrow>
     blockingPotential (analyze_boarding_efficiency seq) = 0 \<and>
     (seq \<noteq> [] \<longrightarrow> optimalityScore (analyze_boarding_efficiency seq) = 100)"
  by (simp add: analyze_boarding_efficiency_def Let_def blocking_loop_inversions
      descending_inversions descending_correct_positions)

text \<open>
  Claim C7, as stated, fails on the empty sequence: it is descending, and the analyser scores it 0,
  not 100.
\<close>

theorem empty_sequence_scores_zero:
  "descending [] \<and> optimalityScore (analyze_boarding_efficiency []) = 0 \<and>
   optimalityScore (analyze_boarding_efficiency []) \<noteq> 100"
  by (simp add: descending_def analyze_boarding_efficiency_def)

text \<open>
  Claim C7, amended: on a sequence that is not empty, \<open>averageDistance\<close> is the arithmetic mean of the
  \<open>maxDistance\<close> values; \<open>blockingPotential\<close> is the sum, over the pairs of positions \<open>i < j\<close> with
  \<open>maxDistance\<close> at \<open>i\<close> below \<open>maxDistance\<close> at \<open>j\<close>, of the difference; a descending sequence has
  \<open>blockingPotential\<close> 0 and, if it is not empty, \<open>optimalityScore\<close> 100.
\<close>

theorem analyze_metrics:
  "(seq \<noteq> [] \<longrightarrow>
      averageDistance (analyze_boarding_efficiency seq) =
        sum_list (map maxDistance seq) / of_nat (length seq)) \<and>
   blockingPotential (analyze_boarding_efficiency seq) =
     (\<Sum>(i, j) \<in> inversions seq. maxDistance (seq ! j) - maxDistance (seq ! i)) \<and>
   (descending seq \<longrightarrow>
      blockingPotential (analyze_boarding_efficiency seq) = 0 \<and>
      (seq \<noteq> [] \<longrightarrow> optimalityScore (analyze_boarding_efficiency seq) = 100))"
proof -
  have "inversions [] = {}" by (simp add: inversions_def)
  then show ?thesis
    using analyze_descending [of seq]
    by (simp add: analyze_boarding_efficiency_def Let_def blocking_loop_inversions)
qed

text \<open>
  Witness of C7 on the sequence of the test.
\<close>

theorem analyze_metrics_witness:
  "two_entries \<noteq> [] \<and> descending two_entries \<and>
   averageDistance (analyze_boarding_efficiency two_entries) = 153 / 10 \<and>
   blockingPotential (analyze_boarding_efficiency two_entries) = 0 \<and>
   optimalityScore (analyze_boarding_efficiency two_entries) = 100"
  using analyze_metrics [of two_entries]
  by (simp add: two_entries_def descending_def)







end
